theory Spec2Isabelle
  imports Complex_Main "HOL-Library.Log_Nat"
begin

section \<open>Python values used by the two order scripts\<close>

subsection \<open>Floats\<close>

text \<open>
  A Python \<^verbatim>\<open>float\<close> is an IEEE 754 binary64 value.  A finite value is kept as the
  rational number it denotes; the two infinities and NaN are separate constructors.
  The two zeros are identified: no comparison in the scripts tells them apart.
\<close>

datatype pyfloat = Finite rat | PosInf | NegInf | NaN

text \<open>Rounding a rational to the nearest integer, a tie going to the even neighbour.\<close>

definition round_half_even :: "rat \<Rightarrow> int" where
  "round_half_even x =
     (let f = \<lfloor>x\<rfloor>; d = x - of_int f in
      if d < 1 / 2 then f
      else if 1 / 2 < d then f + 1
      else if even f then f else f + 1)"

text \<open>
  \<open>ilog2 x\<close> is the binary exponent of a positive rational: the integer \<open>e\<close> with
  \<open>2\<^sup>e \<le> x < 2\<^sup>e\<^sup>+\<^sup>1\<close>.
\<close>

definition ilog2 :: "rat \<Rightarrow> int" where
  "ilog2 x = (if 1 \<le> x then bitlen \<lfloor>x\<rfloor> - 1 else - bitlen (\<lceil>1 / x\<rceil> - 1))"

text \<open>
  The spacing of binary64 numbers around \<open>x\<close>: 53 significant bits, and the fixed
  spacing \<open>2\<^sup>-\<^sup>1\<^sup>0\<^sup>7\<^sup>4\<close> of the subnormal range below \<open>2\<^sup>-\<^sup>1\<^sup>0\<^sup>2\<^sup>2\<close>.
\<close>

definition quantum :: "rat \<Rightarrow> rat" where
  "quantum x = 2 powi (max (ilog2 \<bar>x\<bar>) (- 1022) - 52)"

definition round_binary64 :: "rat \<Rightarrow> rat" where
  "round_binary64 x =
     (if x = 0 then 0 else of_int (round_half_even (x / quantum x)) * quantum x)"

text \<open>The result of a float operation whose exact value is \<open>x\<close>: round, then overflow.\<close>

definition to_float :: "rat \<Rightarrow> pyfloat" where
  "to_float x =
     (let r = round_binary64 x in
      if 2 ^ 1024 \<le> r then PosInf
      else if r \<le> - (2 ^ 1024) then NegInf
      else Finite r)"

fun float_neg :: "pyfloat \<Rightarrow> pyfloat" where
  "float_neg (Finite a) = Finite (- a)"
| "float_neg PosInf = NegInf"
| "float_neg NegInf = PosInf"
| "float_neg NaN = NaN"

text \<open>\<^verbatim>\<open>x <= y\<close>: every comparison with NaN is false.\<close>

fun float_le :: "pyfloat \<Rightarrow> pyfloat \<Rightarrow> bool" where
  "float_le NaN _ = False"
| "float_le _ NaN = False"
| "float_le NegInf _ = True"
| "float_le _ PosInf = True"
| "float_le (Finite a) (Finite b) = (a \<le> b)"
| "float_le PosInf _ = False"
| "float_le _ NegInf = False"

text \<open>\<^verbatim>\<open>x + y\<close> and \<^verbatim>\<open>x * y\<close> on floats.\<close>

fun float_add :: "pyfloat \<Rightarrow> pyfloat \<Rightarrow> pyfloat" where
  "float_add NaN _ = NaN"
| "float_add _ NaN = NaN"
| "float_add (Finite a) (Finite b) = to_float (a + b)"
| "float_add PosInf NegInf = NaN"
| "float_add NegInf PosInf = NaN"
| "float_add PosInf _ = PosInf"
| "float_add _ PosInf = PosInf"
| "float_add NegInf _ = NegInf"
| "float_add _ NegInf = NegInf"

definition float_sign :: "pyfloat \<Rightarrow> int" where
  "float_sign x =
     (case x of Finite a \<Rightarrow> (if 0 < a then 1 else if a < 0 then - 1 else 0)
      | PosInf \<Rightarrow> 1 | NegInf \<Rightarrow> - 1 | NaN \<Rightarrow> 0)"

fun float_mul :: "pyfloat \<Rightarrow> pyfloat \<Rightarrow> pyfloat" where
  "float_mul NaN _ = NaN"
| "float_mul _ NaN = NaN"
| "float_mul (Finite a) (Finite b) = to_float (a * b)"
| "float_mul x y =
     (let s = float_sign x * float_sign y in
      if s = 0 then NaN else if 0 < s then PosInf else NegInf)"

text \<open>
  \<^verbatim>\<open>round(x, ndigits)\<close> for \<^verbatim>\<open>ndigits >= 0\<close>: the exact value of \<open>x\<close> is rounded to
  \<open>ndigits\<close> decimal places, ties to even, and the decimal result is converted back to
  the nearest float.  Infinities and NaN are returned unchanged.
\<close>

fun float_round :: "pyfloat \<Rightarrow> nat \<Rightarrow> pyfloat" where
  "float_round (Finite a) ndigits =
     to_float (of_int (round_half_even (a * 10 ^ ndigits)) / 10 ^ ndigits)"
| "float_round x ndigits = x"

subsection \<open>Text and exceptions\<close>

text \<open>
  Messages are built by f-strings.  A message is kept as the list of its pieces, so
  that the formatting of a float or the \<^verbatim>\<open>repr\<close> of a string need not be spelled out.
\<close>

datatype fragment = S string | Repr string | F pyfloat | I int

type_synonym message = "fragment list"

datatype py_exception =
    ValueError message
  | OverflowError message
  | ArgumentTypeError message

text \<open>\<^verbatim>\<open>str(e)\<close>\<close>

fun str :: "py_exception \<Rightarrow> message" where
  "str (ValueError m) = m"
| "str (OverflowError m) = m"
| "str (ArgumentTypeError m) = m"

text \<open>\<^verbatim>\<open>int(x)\<close> truncates towards zero and raises on an infinity or NaN.\<close>

fun float_to_int :: "pyfloat \<Rightarrow> py_exception + int" where
  "float_to_int (Finite a) = Inr (if 0 \<le> a then \<lfloor>a\<rfloor> else \<lceil>a\<rceil>)"
| "float_to_int NaN = Inl (ValueError [S ''cannot convert float NaN to integer''])"
| "float_to_int x = Inl (OverflowError [S ''cannot convert float infinity to integer''])"

subsection \<open>Strings\<close>

text \<open>
  A command-line token is a Python \<^verbatim>\<open>str\<close>.  It is modelled as a list of 8-bit
  characters read as the code points U+0000 to U+00FF; the character tables below are
  those of the Unicode database on that range.
\<close>

definition code :: "char \<Rightarrow> nat" where
  "code c = of_char c"

text \<open>\<^verbatim>\<open>str.isspace\<close> on one character, the test behind \<^verbatim>\<open>str.strip()\<close>.\<close>

definition isspace_char :: "char \<Rightarrow> bool" where
  "isspace_char c =
     (let n = code c in (9 \<le> n \<and> n \<le> 13) \<or> (28 \<le> n \<and> n \<le> 32) \<or> n = 133 \<or> n = 160)"

definition strip :: "string \<Rightarrow> string" where
  "strip s = rev (dropWhile isspace_char (rev (dropWhile isspace_char s)))"

text \<open>
  \<^verbatim>\<open>str.upper()\<close>.  The sharp s becomes \<^verbatim>\<open>SS\<close>.  The micro sign U+00B5 and the
  y with diaeresis U+00FF have their upper-case forms outside the range and are left as
  they are; both forms are letters, and neither occurs in the words the scripts compare
  against.
\<close>

definition upper_char :: "char \<Rightarrow> string" where
  "upper_char c =
     (let n = code c in
      if (97 \<le> n \<and> n \<le> 122) \<or> (224 \<le> n \<and> n \<le> 254 \<and> n \<noteq> 247) then [char_of (n - 32)]
      else if n = 223 then ''SS''
      else [c])"

definition upper :: "string \<Rightarrow> string" where
  "upper s = concat (map upper_char s)"

text \<open>\<^verbatim>\<open>str.isalnum()\<close>: at least one character, and every character alphanumeric.\<close>

definition isalnum_char :: "char \<Rightarrow> bool" where
  "isalnum_char c =
     (let n = code c in
      (48 \<le> n \<and> n \<le> 57) \<or> (65 \<le> n \<and> n \<le> 90) \<or> (97 \<le> n \<and> n \<le> 122)
      \<or> n = 170 \<or> n = 178 \<or> n = 179 \<or> n = 181 \<or> n = 185 \<or> n = 186
      \<or> (188 \<le> n \<and> n \<le> 190)
      \<or> (192 \<le> n \<and> n \<le> 214) \<or> (216 \<le> n \<and> n \<le> 246) \<or> (248 \<le> n \<and> n \<le> 255))"

definition isalnum :: "string \<Rightarrow> bool" where
  "isalnum s = (s \<noteq> [] \<and> list_all isalnum_char s)"

text \<open>\<^verbatim>\<open>s.endswith(t)\<close>\<close>

definition endswith :: "string \<Rightarrow> string \<Rightarrow> bool" where
  "endswith s t = (length t \<le> length s \<and> drop (length s - length t) s = t)"

subsection \<open>The conversion \<^verbatim>\<open>float(text)\<close>\<close>

text \<open>
  \<^verbatim>\<open>float\<close> applied to a string accepts, between optional white space, an optional
  sign followed by \<^verbatim>\<open>inf\<close>, \<^verbatim>\<open>infinity\<close> or \<^verbatim>\<open>nan\<close> in any letter case, or by a
  decimal number with an optional fraction and an optional exponent.  Single
  underscores may separate digits.  The value is the nearest float.  Anything else
  raises \<^verbatim>\<open>ValueError\<close>.
\<close>

definition is_digit :: "char \<Rightarrow> bool" where
  "is_digit c = (48 \<le> code c \<and> code c \<le> 57)"

definition digits_value :: "string \<Rightarrow> int" where
  "digits_value ds = foldl (\<lambda>a c. 10 * a + (int (code c) - 48)) 0 ds"

text \<open>White space of the Unicode database becomes an ASCII blank before parsing.\<close>

definition space_to_ascii :: "char \<Rightarrow> char" where
  "space_to_ascii c = (if code c = 133 \<or> code c = 160 then CHR '' '' else c)"

text \<open>The white space the conversion strips at both ends.\<close>

definition float_space :: "char \<Rightarrow> bool" where
  "float_space c = ((9 \<le> code c \<and> code c \<le> 13) \<or> code c = 32)"

definition float_strip :: "string \<Rightarrow> string" where
  "float_strip s = rev (dropWhile float_space (rev (dropWhile float_space s)))"

text \<open>
  Underscores are removed; one is allowed only directly after a digit and directly
  before a digit.  The first argument is the previous character.
\<close>

fun strip_underscores :: "char \<Rightarrow> string \<Rightarrow> string option" where
  "strip_underscores prev [] = (if prev = CHR ''_'' then None else Some [])"
| "strip_underscores prev (c # cs) =
     (if c = CHR ''_'' then
        (if is_digit prev then strip_underscores c cs else None)
      else if prev = CHR ''_'' \<and> \<not> is_digit c then None
      else map_option ((#) c) (strip_underscores c cs))"

definition ascii_lower :: "char \<Rightarrow> char" where
  "ascii_lower c = (if 65 \<le> code c \<and> code c \<le> 90 then char_of (code c + 32) else c)"

definition parse_exponent :: "string \<Rightarrow> int option" where
  "parse_exponent s =
     (case s of
        [] \<Rightarrow> Some 0
      | c # t \<Rightarrow>
          if c = CHR ''e'' \<or> c = CHR ''E'' then
            (let (neg, ds) =
               (case t of
                  [] \<Rightarrow> (False, t)
                | d # u \<Rightarrow>
                    if d = CHR ''-'' then (True, u)
                    else if d = CHR ''+'' then (False, u)
                    else (False, t))
             in if ds \<noteq> [] \<and> list_all is_digit ds
                then Some (if neg then - digits_value ds else digits_value ds)
                else None)
          else None)"

definition parse_number :: "string \<Rightarrow> rat option" where
  "parse_number s =
     (let ip = takeWhile is_digit s;
          r1 = dropWhile is_digit s;
          (fp, r2) =
            (case r1 of
               [] \<Rightarrow> ([], r1)
             | c # t \<Rightarrow>
                 if c = CHR ''.'' then (takeWhile is_digit t, dropWhile is_digit t)
                 else ([], r1))
      in if ip = [] \<and> fp = [] then None
         else case parse_exponent r2 of
                None \<Rightarrow> None
              | Some e \<Rightarrow>
                  Some (of_int (digits_value (ip @ fp)) * 10 powi (e - int (length fp))))"

definition parse_unsigned :: "string \<Rightarrow> pyfloat option" where
  "parse_unsigned s =
     (let l = map ascii_lower s in
      if l = ''inf'' \<or> l = ''infinity'' then Some PosInf
      else if l = ''nan'' then Some NaN
      else map_option to_float (parse_number s))"

definition parse_float_literal :: "string \<Rightarrow> pyfloat option" where
  "parse_float_literal s =
     (case s of
        [] \<Rightarrow> None
      | c # t \<Rightarrow>
          if c = CHR ''-'' then map_option float_neg (parse_unsigned t)
          else if c = CHR ''+'' then parse_unsigned t
          else parse_unsigned s)"

definition py_float :: "string \<Rightarrow> py_exception + pyfloat" where
  "py_float text =
     (case strip_underscores (CHR 0x00) (map space_to_ascii text) of
        None \<Rightarrow> Inl (ValueError [S ''could not convert string to float: '', Repr text])
      | Some t \<Rightarrow>
          (case parse_float_literal (float_strip t) of
             None \<Rightarrow> Inl (ValueError [S ''could not convert string to float: '', Repr text])
           | Some x \<Rightarrow> Inr x))"

section \<open>The environment of one run\<close>

text \<open>
  The scripts read the random generator and the clock.  One run is given the raw
  integers the generator delivers and the value of \<^verbatim>\<open>datetime.utcnow().timestamp()\<close>.
\<close>

record environment =
  random_unit :: int
  random_id :: int
  utc_timestamp :: pyfloat

text \<open>\<^verbatim>\<open>random.random()\<close>: a 53-bit integer divided by \<open>2\<^sup>5\<^sup>3\<close>.\<close>

definition random_random :: "int \<Rightarrow> pyfloat" where
  "random_random raw = Finite (of_int (raw mod 2 ^ 53) / 2 ^ 53)"

text \<open>\<^verbatim>\<open>random.randint(a, b)\<close>: an integer \<open>N\<close> with \<open>a \<le> N \<le> b\<close>.\<close>

definition randint :: "int \<Rightarrow> int \<Rightarrow> int \<Rightarrow> int" where
  "randint a b raw = a + raw mod (b - a + 1)"

text \<open>\<^verbatim>\<open>int(datetime.utcnow().timestamp() * 1000)\<close>\<close>

definition transact_time :: "environment \<Rightarrow> py_exception + int" where
  "transact_time env = float_to_int (float_mul (utc_timestamp env) (Finite 1000))"

text \<open>The clock shows a time that \<^verbatim>\<open>datetime\<close> can hold (years 1 to 9999).\<close>

definition clock_in_range :: "environment \<Rightarrow> bool" where
  "clock_in_range env =
     (case utc_timestamp env of
        Finite t \<Rightarrow> - 62135596800 \<le> t \<and> t \<le> 253402300800
      | _ \<Rightarrow> False)"

section \<open>The order records\<close>

record order =
  orderId :: int
  symbol :: string
  side :: string
  status :: string
  transactTime :: int

record limit_order = order +
  origQty :: pyfloat
  price :: pyfloat

record market_order = order +
  executedQty :: pyfloat
  avgPrice :: pyfloat

section \<open>What a run does\<close>

datatype pyvalue = PyInt int | PyStr string | PyFloat pyfloat

datatype event =
    Log_info message
  | Log_error message
  | Log_exception message py_exception
  | Parser_error message
  | Help_printed
  | Simulate_limit string string pyfloat pyfloat
  | Simulate_market string string pyfloat
  | Print "(string \<times> pyvalue) list"

record run =
  events :: "event list"
  exit_status :: int

text \<open>
  \<^verbatim>\<open>parser.parse_args()\<close> returns the namespace of the positional arguments, or ends
  the process itself: with status 2 after a usage message when the argument list is
  malformed, with status 0 after the help text.
\<close>

datatype 'a parsed = Namespace 'a | Exit_usage message | Exit_help

record market_args =
  arg_symbol :: string
  arg_side :: string
  arg_quantity :: string

record limit_args = market_args +
  arg_price :: string

text \<open>\<^verbatim>\<open>parser.error(msg)\<close> writes the usage and the message to standard error and exits with 2.\<close>

definition parser_error :: "event list \<Rightarrow> message \<Rightarrow> run" where
  "parser_error before msg = \<lparr>events = before @ [Parser_error msg], exit_status = 2\<rparr>"

text \<open>Both scripts define the same set.\<close>

definition VALID_SIDES :: "string set" where
  "VALID_SIDES = {''BUY'', ''SELL''}"

section \<open>limit\_orders.py\<close>

text \<open>The test \<^verbatim>\<open>isinstance(symbol, str)\<close> holds by the type of the argument.\<close>

definition limit_validate_symbol :: "string \<Rightarrow> bool" where
  "limit_validate_symbol symbol' = (isalnum symbol' \<and> endswith symbol' ''USDT'')"

definition limit_validate_quantity :: "string \<Rightarrow> py_exception + pyfloat" where
  "limit_validate_quantity q_str =
     (case (case py_float q_str of
              Inl e \<Rightarrow> Inl e
            | Inr q \<Rightarrow>
                if float_le q (Finite 0) then Inl (ValueError [S ''Quantity must be > 0''])
                else Inr q) of
        Inl e \<Rightarrow> Inl (ArgumentTypeError (str e))
      | Inr q \<Rightarrow> Inr q)"

definition validate_price :: "string \<Rightarrow> py_exception + pyfloat" where
  "validate_price p_str =
     (case (case py_float p_str of
              Inl e \<Rightarrow> Inl e
            | Inr p \<Rightarrow>
                if float_le p (Finite 0) then Inl (ValueError [S ''Price must be > 0''])
                else Inr p) of
        Inl e \<Rightarrow> Inl (ArgumentTypeError (str e))
      | Inr p \<Rightarrow> Inr p)"

definition simulate_place_limit_order ::
  "environment \<Rightarrow> string \<Rightarrow> string \<Rightarrow> pyfloat \<Rightarrow> pyfloat \<Rightarrow> py_exception + limit_order" where
  "simulate_place_limit_order env symbol' side' quantity price' =
     (let order_id = randint 10000000 99999999 (random_id env) in
      case transact_time env of
        Inl e \<Rightarrow> Inl e
      | Inr t \<Rightarrow>
          Inr \<lparr>orderId = order_id, symbol = symbol', side = side', status = ''NEW'',
               transactTime = t, origQty = quantity, price = price'\<rparr>)"

definition limit_place :: "environment \<Rightarrow> string \<Rightarrow> string \<Rightarrow> pyfloat \<Rightarrow> pyfloat \<Rightarrow> run" where
  "limit_place env symbol' side' quantity price' =
     (let before =
            [Log_info [S ''Placing limit order | '', S symbol', S '' | '', S side',
                       S '' | qty='', F quantity, S '' | price='', F price'],
             Simulate_limit symbol' side' quantity price']
      in case simulate_place_limit_order env symbol' side' quantity price' of
           Inl e \<Rightarrow>
             \<lparr>events = before @ [Log_exception [S ''Failed to place limit order''] e],
              exit_status = 1\<rparr>
         | Inr order \<Rightarrow>
             \<lparr>events = before @
                [Log_info [S ''Limit order placed | orderId='', I (orderId order),
                           S '' | status='', S (status order)],
                 Print [(''orderId'', PyInt (orderId order)),
                        (''symbol'', PyStr (symbol order)),
                        (''side'', PyStr (side order)),
                        (''status'', PyStr (status order)),
                        (''origQty'', PyFloat (origQty order)),
                        (''price'', PyFloat (price order))]],
              exit_status = 0\<rparr>)"

definition limit_main :: "environment \<Rightarrow> limit_args parsed \<Rightarrow> run" where
  "limit_main env parsed =
     (case parsed of
        Exit_usage msg \<Rightarrow> parser_error [] msg
      | Exit_help \<Rightarrow> \<lparr>events = [Help_printed], exit_status = 0\<rparr>
      | Namespace args \<Rightarrow>
          (let symbol' = upper (strip (arg_symbol args));
               side' = upper (strip (arg_side args))
           in case (case limit_validate_quantity (arg_quantity args) of
                      Inl e \<Rightarrow> Inl e
                    | Inr quantity \<Rightarrow>
                        (case validate_price (arg_price args) of
                           Inl e \<Rightarrow> Inl e
                         | Inr price' \<Rightarrow> Inr (quantity, price'))) of
                Inl e \<Rightarrow>
                  parser_error [Log_error (S ''Invalid input: '' # str e)]
                    (S ''Invalid input: '' # str e)
              | Inr (quantity, price') \<Rightarrow>
                  if side' \<notin> VALID_SIDES then
                    parser_error [Log_error [S ''Invalid side: '', S side']]
                      [S ''side must be BUY or SELL'']
                  else if \<not> limit_validate_symbol symbol' then
                    parser_error [Log_error [S ''Invalid symbol: '', S symbol']]
                      [S ''symbol must end with '', Repr ''USDT'', S '' (e.g., BTCUSDT)'']
                  else limit_place env symbol' side' quantity price'))"

section \<open>market\_orders.py\<close>

definition market_validate_symbol :: "string \<Rightarrow> bool" where
  "market_validate_symbol symbol' = (isalnum symbol' \<and> endswith symbol' ''USDT'')"

definition market_validate_quantity :: "string \<Rightarrow> py_exception + pyfloat" where
  "market_validate_quantity q_str =
     (case (case py_float q_str of
              Inl e \<Rightarrow> Inl e
            | Inr q \<Rightarrow>
                if float_le q (Finite 0) then Inl (ValueError [S ''Quantity must be > 0''])
                else Inr q) of
        Inl e \<Rightarrow> Inl (ArgumentTypeError (str e))
      | Inr q \<Rightarrow> Inr q)"

definition simulate_place_market_order ::
  "environment \<Rightarrow> string \<Rightarrow> string \<Rightarrow> pyfloat \<Rightarrow> py_exception + market_order" where
  "simulate_place_market_order env symbol' side' quantity =
     (let exec_price =
            float_round
              (float_add (Finite 1000) (float_mul (random_random (random_unit env)) (Finite 1000)))
              2;
          order_id = randint 10000000 99999999 (random_id env)
      in case transact_time env of
           Inl e \<Rightarrow> Inl e
         | Inr t \<Rightarrow>
             Inr \<lparr>orderId = order_id, symbol = symbol', side = side', status = ''FILLED'',
                  transactTime = t, executedQty = quantity, avgPrice = exec_price\<rparr>)"

definition market_place :: "environment \<Rightarrow> string \<Rightarrow> string \<Rightarrow> pyfloat \<Rightarrow> run" where
  "market_place env symbol' side' quantity =
     (let before =
            [Log_info [S ''Placing market order | '', S symbol', S '' | '', S side',
                       S '' | qty='', F quantity],
             Simulate_market symbol' side' quantity]
      in case simulate_place_market_order env symbol' side' quantity of
           Inl e \<Rightarrow>
             \<lparr>events = before @ [Log_exception [S ''Failed to place market order''] e],
              exit_status = 1\<rparr>
         | Inr order \<Rightarrow>
             \<lparr>events = before @
                [Log_info [S ''Market order placed | orderId='', I (orderId order),
                           S '' | avgPrice='', F (avgPrice order)],
                 Print [(''orderId'', PyInt (orderId order)),
                        (''symbol'', PyStr (symbol order)),
                        (''side'', PyStr (side order)),
                        (''status'', PyStr (status order)),
                        (''executedQty'', PyFloat (executedQty order)),
                        (''avgPrice'', PyFloat (avgPrice order))]],
              exit_status = 0\<rparr>)"

definition market_main :: "environment \<Rightarrow> market_args parsed \<Rightarrow> run" where
  "market_main env parsed =
     (case parsed of
        Exit_usage msg \<Rightarrow> parser_error [] msg
      | Exit_help \<Rightarrow> \<lparr>events = [Help_printed], exit_status = 0\<rparr>
      | Namespace args \<Rightarrow>
          (let symbol' = upper (strip (arg_symbol args));
               side' = upper (strip (arg_side args))
           in case market_validate_quantity (arg_quantity args) of
                Inl e \<Rightarrow>
                  parser_error [Log_error (S ''Invalid quantity: '' # str e)]
                    (S ''Invalid quantity: '' # str e)
              | Inr quantity \<Rightarrow>
                  if side' \<notin> VALID_SIDES then
                    parser_error [Log_error [S ''Invalid side: '', S side']]
                      [S ''side must be BUY or SELL'']
                  else if \<not> market_validate_symbol symbol' then
                    parser_error [Log_error [S ''Invalid symbol: '', S symbol']]
                      [S ''symbol must end with '', Repr ''USDT'', S '' (e.g., BTCUSDT)'']
                  else market_place env symbol' side' quantity))"

section \<open>Observations on a run\<close>

fun prints_summary :: "event \<Rightarrow> bool" where
  "prints_summary (Print _) = True"
| "prints_summary _ = False"

fun calls_simulator :: "event \<Rightarrow> bool" where
  "calls_simulator (Simulate_limit _ _ _ _) = True"
| "calls_simulator (Simulate_market _ _ _) = True"
| "calls_simulator _ = False"

section \<open>Facts about binary64 rounding\<close>

lemma ilog2_ge1:
  assumes "1 \<le> x"
  shows "2 powi (ilog2 x) \<le> x \<and> x < 2 powi (ilog2 x + 1)"
proof -
  define n where "n = \<lfloor>x\<rfloor>"
  have n: "0 < n" using assms by (simp add: n_def)
  have e: "ilog2 x = bitlen n - 1" using assms by (simp add: ilog2_def n_def)
  from bitlen_bounds[OF n] have b: "2 ^ nat (bitlen n - 1) \<le> n" "n < 2 ^ nat (bitlen n)" by auto
  have pos: "0 < bitlen n" using n bitlen_nonneg[of n] bitlen_eq_zero_iff[of n] by linarith
  have "(2::rat) powi (bitlen n - 1) = 2 ^ nat (bitlen n - 1)"
    using pos by (simp add: power_int_def)
  also have "\<dots> = of_int (2 ^ nat (bitlen n - 1))" by simp
  also have "\<dots> \<le> of_int n" using b(1) by (simp only: of_int_le_iff)
  also have "\<dots> \<le> x" by (simp add: n_def)
  finally have 1: "2 powi (ilog2 x) \<le> x" by (simp add: e)
  have "n + 1 \<le> 2 ^ nat (bitlen n)" using b(2) by simp
  then have i: "(of_int (n + 1) :: rat) \<le> of_int (2 ^ nat (bitlen n))" by (simp only: of_int_le_iff)
  have "x < of_int (n + 1)" using floor_correct[of x] by (simp add: n_def)
  also note i
  also have "(of_int (2 ^ nat (bitlen n)) :: rat) = 2 powi (bitlen n)"
    using pos by (simp add: power_int_def)
  finally have 2: "x < 2 powi (ilog2 x + 1)" by (simp add: e)
  from 1 2 show ?thesis ..
qed

lemma ilog2_lt1:
  assumes "0 < x" "x < 1"
  shows "2 powi (ilog2 x) \<le> x \<and> x < 2 powi (ilog2 x + 1)"
proof -
  define m where "m = \<lceil>1 / x\<rceil> - 1"
  define k where "k = bitlen m"
  have y: "1 < 1 / x" using assms by simp
  have m: "0 < m" using y unfolding m_def by linarith
  have e: "ilog2 x = - k" using assms by (simp add: ilog2_def m_def k_def)
  from bitlen_bounds[OF m] have b: "2 ^ nat (k - 1) \<le> m" "m < 2 ^ nat k" by (auto simp: k_def)
  have pos: "0 < k" using m bitlen_nonneg[of m] bitlen_eq_zero_iff[of m] unfolding k_def by linarith
  have "m + 1 \<le> 2 ^ nat k" using b(2) by simp
  then have i: "(of_int (m + 1) :: rat) \<le> of_int (2 ^ nat k)" by (simp only: of_int_le_iff)
  have "1 / x \<le> of_int (m + 1)" unfolding m_def by simp
  also note i
  finally have "1 / x \<le> 2 ^ nat k" by simp
  then have "1 / 2 ^ nat k \<le> x" using assms(1)
    by (simp add: field_simps)
  moreover have "(2::rat) powi (- k) = 1 / 2 ^ nat k" using pos by (simp add: power_int_def field_simps)
  ultimately have 1: "2 powi (ilog2 x) \<le> x" by (simp add: e)
  have "(2::rat) ^ nat (k - 1) = of_int (2 ^ nat (k - 1))" by simp
  also have "\<dots> \<le> of_int m" using b(1) by (simp only: of_int_le_iff)
  also have "\<dots> < 1 / x" unfolding m_def by linarith
  finally have "2 ^ nat (k - 1) < 1 / x" .
  then have "x < 1 / 2 ^ nat (k - 1)" using assms(1) by (simp add: field_simps)
  moreover have "(2::rat) powi (- k + 1) = 1 / 2 ^ nat (k - 1)"
    using pos by (simp add: power_int_def field_simps nat_diff_distrib) 
  ultimately have 2: "x < 2 powi (ilog2 x + 1)" by (simp add: e)
  from 1 2 show ?thesis ..
qed

lemma ilog2_bounds:
  assumes "0 < x"
  shows "2 powi (ilog2 x) \<le> x" and "x < 2 powi (ilog2 x + 1)"
  using ilog2_ge1[of x] ilog2_lt1[of x] assms by (cases "1 \<le> x"; simp)+


lemma powi2_mono: "a \<le> b \<Longrightarrow> (2::rat) powi a \<le> 2 powi b"
  by (rule power_int_increasing) simp_all

lemma powi2_less_imp: "(2::rat) powi a < 2 powi b \<Longrightarrow> a < b"
  using powi2_mono[of b a] by (cases "a < b") auto

lemma powi2_pos: "0 < (2::rat) powi a"
  by simp

lemma ilog2_unique:
  assumes "2 powi e \<le> x" "x < 2 powi (e + 1)"
  shows "ilog2 x = e"
proof -
  have x: "0 < x" using assms(1) powi2_pos[of e] by linarith
  note b = ilog2_bounds[OF x]
  have "(2::rat) powi e < 2 powi (ilog2 x + 1)" using assms(1) b(2) by linarith
  then have 1: "e < ilog2 x + 1" by (rule powi2_less_imp)
  have "(2::rat) powi (ilog2 x) < 2 powi (e + 1)" using assms(2) b(1) by linarith
  then have 2: "ilog2 x < e + 1" by (rule powi2_less_imp)
  from 1 2 show ?thesis by linarith
qed

lemma ilog2_mono:
  assumes "0 < x" "x \<le> y"
  shows "ilog2 x \<le> ilog2 y"
proof -
  have y: "0 < y" using assms by linarith
  have "(2::rat) powi (ilog2 x) < 2 powi (ilog2 y + 1)"
    using ilog2_bounds(1)[OF assms(1)] ilog2_bounds(2)[OF y] assms(2) by linarith
  then have "ilog2 x < ilog2 y + 1" by (rule powi2_less_imp)
  then show ?thesis by linarith
qed

lemma rhe_of_int: "round_half_even (of_int n) = n"
  by (simp add: round_half_even_def)

lemma rhe_lower: "\<lfloor>x\<rfloor> \<le> round_half_even x"
  by (simp add: round_half_even_def Let_def)

lemma rhe_upper: "round_half_even x \<le> \<lceil>x\<rceil>"
  unfolding round_half_even_def Let_def by (auto; linarith)

lemma rhe_mono:
  assumes "x \<le> y"
  shows "round_half_even x \<le> round_half_even y"
proof (cases "\<lfloor>x\<rfloor> = \<lfloor>y\<rfloor>")
  case True
  then show ?thesis using assms unfolding round_half_even_def Let_def by (auto; linarith)
next
  case False
  then have "\<lfloor>x\<rfloor> < \<lfloor>y\<rfloor>" using assms floor_mono[of x y] by linarith
  then have "\<lceil>x\<rceil> \<le> \<lfloor>y\<rfloor>" by linarith
  then show ?thesis using rhe_upper[of x] rhe_lower[of y] by linarith
qed

lemma rhe_minus: "round_half_even (- x) = - round_half_even x"
proof (cases "of_int \<lfloor>x\<rfloor> = x")
  case True
  from True[symmetric] show ?thesis using rhe_of_int[of "\<lfloor>x\<rfloor>"] rhe_of_int[of "- \<lfloor>x\<rfloor>"]
    by (metis of_int_minus)
next
  case False
  then have "of_int \<lfloor>x\<rfloor> < x" using of_int_floor_le[of x] by linarith
  then have f: "\<lfloor>- x\<rfloor> = - \<lfloor>x\<rfloor> - 1" by linarith
  show ?thesis unfolding round_half_even_def Let_def f by (auto simp: algebra_simps; linarith?)
qed


lemma powi2_add: "(2::rat) powi (a + b) = 2 powi a * 2 powi b"
  by (rule power_int_add) simp

lemma floor_rat_numeral:
  "\<lfloor>(numeral a :: rat) / numeral b\<rfloor> = numeral a div numeral b"
  using floor_divide_of_int_eq[of "numeral a" "numeral b", where ?'a = rat] by simp

lemma powi2_diff: "(2::rat) powi a / 2 powi b = 2 powi (a - b)"
  by (simp add: power_int_diff)

lemma quantum_pos: "0 < quantum x"
  by (simp add: quantum_def)

lemma quantum_minus: "quantum (- x) = quantum x"
  by (simp add: quantum_def)

lemma round_binary64_minus: "round_binary64 (- x) = - round_binary64 x"
  by (simp add: round_binary64_def quantum_minus rhe_minus)

lemma round_binary64_nonneg:
  assumes "0 \<le> x"
  shows "0 \<le> round_binary64 x"
proof -
  have "0 \<le> x / quantum x" using assms quantum_pos[of x] by simp
  then have "0 \<le> \<lfloor>x / quantum x\<rfloor>" by simp
  then have "0 \<le> round_half_even (x / quantum x)" using rhe_lower[of "x / quantum x"] by linarith
  then show ?thesis using quantum_pos[of x] by (simp add: round_binary64_def)
qed

lemma round_binary64_upper:
  assumes "0 < x"
  shows "round_binary64 x \<le> 2 powi (max (ilog2 x) (- 1022) + 1)"
proof -
  define E where "E = max (ilog2 x) (- 1022)"
  have q: "quantum x = 2 powi (E - 52)" using assms by (simp add: quantum_def E_def)
  have "x < 2 powi (ilog2 x + 1)" by (rule ilog2_bounds(2)[OF assms])
  also have "\<dots> \<le> 2 powi (E + 1)" by (rule powi2_mono) (simp add: E_def)
  finally have "x \<le> 2 powi (E + 1)" by simp
  then have "x / 2 powi (E - 52) \<le> 2 powi (E + 1) / 2 powi (E - 52)"
    by (rule divide_right_mono) simp
  also have "(2::rat) powi (E + 1) / 2 powi (E - 52) = of_int (2 ^ 53)"
    by (simp add: powi2_diff)
  finally have "round_half_even (x / 2 powi (E - 52)) \<le> 2 ^ 53"
    using rhe_mono rhe_of_int by metis
  then have "(of_int (round_half_even (x / 2 powi (E - 52))) :: rat) \<le> of_int (2 ^ 53)"
    by (simp only: of_int_le_iff)
  then have "of_int (round_half_even (x / 2 powi (E - 52))) * 2 powi (E - 52)
      \<le> (of_int (2 ^ 53) :: rat) * 2 powi (E - 52)"
    by (rule mult_right_mono) simp
  also have "(of_int (2 ^ 53) :: rat) * 2 powi (E - 52) = 2 powi (E + 1)"
  proof -
    have "(of_int (2 ^ 53) :: rat) = 2 powi 53" by simp
    moreover have "E + 1 = 53 + (E - 52)" by simp
    ultimately show ?thesis by (simp only: powi2_add)
  qed
  finally show ?thesis using assms by (simp add: round_binary64_def q E_def)
qed

lemma round_binary64_lower:
  assumes "0 < x" "- 1022 \<le> ilog2 x"
  shows "2 powi (ilog2 x) \<le> round_binary64 x"
proof -
  define E where "E = ilog2 x"
  have q: "quantum x = 2 powi (E - 52)" using assms by (simp add: quantum_def E_def max_def)
  have "(of_int (2 ^ 52) :: rat) = 2 powi E / 2 powi (E - 52)" by (simp add: powi2_diff)
  also have "\<dots> \<le> x / 2 powi (E - 52)"
    using ilog2_bounds(1)[OF assms(1)] unfolding E_def by (rule divide_right_mono) simp
  finally have "2 ^ 52 \<le> round_half_even (x / 2 powi (E - 52))"
    using rhe_mono rhe_of_int by metis
  then have "(of_int (2 ^ 52) :: rat) \<le> of_int (round_half_even (x / 2 powi (E - 52)))"
    by (simp only: of_int_le_iff)
  then have A: "(of_int (2 ^ 52) :: rat) * 2 powi (E - 52)
      \<le> of_int (round_half_even (x / 2 powi (E - 52))) * 2 powi (E - 52)"
    by (rule mult_right_mono) simp
  have B: "(of_int (2 ^ 52) :: rat) * 2 powi (E - 52) = 2 powi E"
  proof -
    have "(of_int (2 ^ 52) :: rat) = 2 powi 52" by simp
    moreover have "E = 52 + (E - 52)" by simp
    ultimately show ?thesis by (metis powi2_add)
  qed
  from A[unfolded B] show ?thesis using assms by (simp add: round_binary64_def q E_def)
qed

lemma round_binary64_mono_pos:
  assumes "0 < x" "x \<le> y"
  shows "round_binary64 x \<le> round_binary64 y"
proof -
  have y: "0 < y" using assms by linarith
  define Ex where "Ex = max (ilog2 x) (- 1022)"
  define Ey where "Ey = max (ilog2 y) (- 1022)"
  have le: "Ex \<le> Ey" using ilog2_mono[OF assms] by (simp add: Ex_def Ey_def)
  show ?thesis
  proof (cases "Ex = Ey")
    case True
    then have q: "quantum x = quantum y" using assms y by (simp add: quantum_def Ex_def Ey_def)
    have "x / quantum y \<le> y / quantum y" using assms(2) quantum_pos[of y] by (simp add: divide_le_cancel)
    then have "round_half_even (x / quantum y) \<le> round_half_even (y / quantum y)" by (rule rhe_mono)
    then have "(of_int (round_half_even (x / quantum y)) :: rat) \<le> of_int (round_half_even (y / quantum y))"
      by (simp only: of_int_le_iff)
    then have "of_int (round_half_even (x / quantum y)) * quantum y
       \<le> of_int (round_half_even (y / quantum y)) * quantum y"
      using quantum_pos[of y] by (simp add: mult_right_mono)
    then show ?thesis using assms y by (simp add: round_binary64_def q)
  next
    case False
    then have lt: "Ex < Ey" using le by linarith
    then have ey: "Ey = ilog2 y" "- 1022 \<le> ilog2 y" by (auto simp: Ex_def Ey_def max_def split: if_splits)
    have "round_binary64 x \<le> 2 powi (Ex + 1)" using round_binary64_upper[OF assms(1)] by (simp add: Ex_def)
    also have "\<dots> \<le> 2 powi Ey" by (rule powi2_mono) (use lt in linarith)
    also have "\<dots> \<le> round_binary64 y" using round_binary64_lower[OF y ey(2)] by (simp add: ey(1))
    finally show ?thesis .
  qed
qed

lemma round_binary64_mono:
  assumes "x \<le> y"
  shows "round_binary64 x \<le> round_binary64 y"
proof -
  consider "0 < x" | "x \<le> 0" "0 \<le> y" | "y < 0" by linarith
  then show ?thesis
  proof cases
    case 1
    then show ?thesis using assms by (rule round_binary64_mono_pos)
  next
    case 2
    have "round_binary64 x \<le> 0"
      using round_binary64_nonneg[of "- x"] 2(1) by (simp add: round_binary64_minus)
    then show ?thesis using round_binary64_nonneg[OF 2(2)] by linarith
  next
    case 3
    then have "round_binary64 (- y) \<le> round_binary64 (- x)"
      using assms by (intro round_binary64_mono_pos) auto
    then show ?thesis by (simp add: round_binary64_minus)
  qed
qed

lemma round_binary64_between:
  assumes "lo \<le> x" "x \<le> hi" "round_binary64 lo = lo" "round_binary64 hi = hi"
  shows "lo \<le> round_binary64 x \<and> round_binary64 x \<le> hi"
  using round_binary64_mono[OF assms(1)] round_binary64_mono[OF assms(2)] assms(3,4) by simp

lemma round_binary64_eq:
  assumes "2 powi e \<le> \<bar>x\<bar>" "\<bar>x\<bar> < 2 powi (e + 1)" "- 1022 \<le> e"
  shows "round_binary64 x = of_int (round_half_even (x / 2 powi (e - 52))) * 2 powi (e - 52)"
proof -
  have "ilog2 \<bar>x\<bar> = e" using assms(1,2) by (rule ilog2_unique)
  moreover have "0 < \<bar>x\<bar>" using assms(1) powi2_pos[of e] by linarith
  then have "x \<noteq> 0" by simp
  moreover note this
  ultimately show ?thesis using assms(3) by (simp add: round_binary64_def quantum_def max_def)
qed

lemma to_float_eq:
  assumes "2 powi e \<le> \<bar>x\<bar>" "\<bar>x\<bar> < 2 powi (e + 1)" "- 1022 \<le> e"
    and "of_int (round_half_even (x / 2 powi (e - 52))) * 2 powi (e - 52) = r"
    and "\<bar>r\<bar> < 2 ^ 1024"
  shows "to_float x = Finite r"
  using round_binary64_eq[OF assms(1,2,3)] assms(4,5) by (auto simp: to_float_def Let_def)

lemma to_float_between:
  assumes "lo \<le> x" "x \<le> hi" "round_binary64 lo = lo" "round_binary64 hi = hi"
    and "- (2 ^ 1024) < lo" "hi < 2 ^ 1024"
  shows "to_float x = Finite (round_binary64 x)
     \<and> lo \<le> round_binary64 x \<and> round_binary64 x \<le> hi"
proof -
  from round_binary64_between[OF assms(1-4)]
  have b: "lo \<le> round_binary64 x" "round_binary64 x \<le> hi" by simp_all
  have "\<not> 2 ^ 1024 \<le> round_binary64 x" using b(2) assms(6) by linarith
  moreover have "\<not> round_binary64 x \<le> - (2 ^ 1024)" using b(1) assms(5) by linarith
  ultimately show ?thesis using b by (simp add: to_float_def Let_def)
qed

lemmas eval_round = round_half_even_def Let_def power_int_def power_one_over floor_rat_numeral

lemma round_binary64_0: "round_binary64 0 = 0"
  by (simp add: round_binary64_def)

lemma round_binary64_1000: "round_binary64 1000 = 1000"
  by (subst round_binary64_eq[where e = 9]) (simp_all add: eval_round)

lemma round_binary64_2000: "round_binary64 2000 = 2000"
  by (subst round_binary64_eq[where e = 10]) (simp_all add: eval_round)

lemma round_binary64_clock: "round_binary64 253402300800000 = 253402300800000"
  by (subst round_binary64_eq[where e = 47]) (simp_all add: eval_round)

section \<open>Facts about strings\<close>

lemma endswith_iff: "endswith s t \<longleftrightarrow> (\<exists>p. s = p @ t)"
proof
  assume "endswith s t"
  then have "s = take (length s - length t) s @ t"
    by (metis append_take_drop_id endswith_def)
  then show "\<exists>p. s = p @ t" ..
next
  assume "\<exists>p. s = p @ t"
  then show "endswith s t" by (auto simp: endswith_def)
qed

lemmas parse_defs = py_float_def parse_float_literal_def parse_unsigned_def parse_number_def
  parse_exponent_def float_strip_def float_space_def space_to_ascii_def is_digit_def
  digits_value_def ascii_lower_def code_def

section \<open>Facts about the simulators\<close>

lemma transact_time_total:
  assumes "clock_in_range env"
  shows "\<exists>t. transact_time env = Inr t"
proof -
  from assms obtain ts where ts: "utc_timestamp env = Finite ts"
    "- 62135596800 \<le> ts" "ts \<le> 253402300800"
    by (auto simp: clock_in_range_def split: pyfloat.splits)
  have lo: "- 253402300800000 \<le> ts * 1000" using ts(2) by simp
  have hi: "ts * 1000 \<le> 253402300800000" using ts(3) by simp
  have m: "round_binary64 (- 253402300800000) = - 253402300800000"
    using round_binary64_minus[of 253402300800000] by (simp add: round_binary64_clock)
  from to_float_between[OF lo hi m round_binary64_clock]
  have "to_float (ts * 1000) = Finite (round_binary64 (ts * 1000))" by simp
  then show ?thesis by (simp add: transact_time_def ts(1))
qed

lemma random_random_range: "\<exists>r. random_random raw = Finite r \<and> 0 \<le> r \<and> r < 1"
proof -
  define r where "r = (of_int (raw mod 2 ^ 53) :: rat) / 2 ^ 53"
  have "0 \<le> raw mod 2 ^ 53" "raw mod 2 ^ 53 < 2 ^ 53" by simp_all
  then have "(0::rat) \<le> of_int (raw mod 2 ^ 53)"
    "(of_int (raw mod 2 ^ 53) :: rat) < of_int (2 ^ 53)"
    by (simp_all only: of_int_0_le_iff of_int_less_iff)
  then have "0 \<le> r" "r < 1" by (simp_all add: r_def)
  moreover have "random_random raw = Finite r" by (simp add: random_random_def r_def)
  ultimately show ?thesis by blast
qed

lemma exec_price_range:
  "\<exists>v k. float_round (float_add (Finite 1000) (float_mul (random_random raw) (Finite 1000))) 2
            = Finite v
         \<and> 1000 \<le> v \<and> v \<le> 2000
         \<and> v = round_binary64 (of_int k / 100) \<and> 100000 \<le> k \<and> k \<le> 200000"
proof -
  obtain r where r: "random_random raw = Finite r" "0 \<le> r" "r < 1"
    using random_random_range by blast
  have "0 \<le> r * 1000" "r * 1000 \<le> 1000" using r by simp_all
  from to_float_between[OF this round_binary64_0 round_binary64_1000]
  have p: "to_float (r * 1000) = Finite (round_binary64 (r * 1000))"
    "0 \<le> round_binary64 (r * 1000)" "round_binary64 (r * 1000) \<le> 1000" by simp_all
  define p where "p = round_binary64 (r * 1000)"
  have "1000 \<le> 1000 + p" "1000 + p \<le> 2000" using p(2,3) by (simp_all add: p_def)
  from to_float_between[OF this round_binary64_1000 round_binary64_2000]
  have s: "to_float (1000 + p) = Finite (round_binary64 (1000 + p))"
    "1000 \<le> round_binary64 (1000 + p)" "round_binary64 (1000 + p) \<le> 2000" by simp_all
  define s where "s = round_binary64 (1000 + p)"
  define k where "k = round_half_even (s * 100)"
  have "of_int 100000 \<le> s * 100" "s * 100 \<le> of_int 200000" using s(2,3) by (simp_all add: s_def)
  then have k: "100000 \<le> k" "k \<le> 200000"
    using rhe_mono rhe_of_int unfolding k_def by metis+
  then have "(of_int 100000 :: rat) \<le> of_int k" "(of_int k :: rat) \<le> of_int 200000"
    by (simp_all only: of_int_le_iff)
  then have "1000 \<le> (of_int k :: rat) / 100" "(of_int k :: rat) / 100 \<le> 2000" by simp_all
  from to_float_between[OF this round_binary64_1000 round_binary64_2000]
  have v: "to_float (of_int k / 100) = Finite (round_binary64 (of_int k / 100))"
    "1000 \<le> round_binary64 (of_int k / 100)" "round_binary64 (of_int k / 100) \<le> 2000"
    by simp_all
  have "float_round (float_add (Finite 1000) (float_mul (random_random raw) (Finite 1000))) 2
      = Finite (round_binary64 (of_int k / 100))"
    using p(1) s(1) v(1) by (simp add: r(1) p_def[symmetric] s_def[symmetric] k_def[symmetric])
  then show ?thesis using v(2,3) k by blast
qed

lemma randint_range:
  assumes "a \<le> b"
  shows "a \<le> randint a b raw \<and> randint a b raw \<le> b"
proof -
  have "0 < b - a + 1" using assms by simp
  then have "0 \<le> raw mod (b - a + 1)" "raw mod (b - a + 1) < b - a + 1"
    by (rule pos_mod_sign, rule pos_mod_bound)
  then show ?thesis unfolding randint_def by linarith
qed

lemma to_float_1700: "to_float 1700000000000 = Finite 1700000000000"
  by (rule to_float_eq[where e = 40]) (simp_all add: eval_round)

lemma to_float_2000: "to_float 2000 = Finite 2000"
  by (rule to_float_eq[where e = 10]) (simp_all add: eval_round)

lemma to_float_1: "to_float 1 = Finite 1"
  by (rule to_float_eq[where e = 0]) (simp_all add: eval_round)

lemma to_float_2: "to_float 2 = Finite 2"
  by (rule to_float_eq[where e = 1]) (simp_all add: eval_round)

lemma to_float_3000: "to_float 3000 = Finite 3000"
  by (rule to_float_eq[where e = 11]) (simp_all add: eval_round)

lemma to_float_65000: "to_float 65000 = Finite 65000"
  by (rule to_float_eq[where e = 15]) (simp_all add: eval_round)

lemma to_float_fiftieth: "to_float (1 / 50) = Finite (5764607523034235 / 288230376151711744)"
  by (rule to_float_eq[where e = "- 6"]) (simp_all add: eval_round)

lemma to_float_hundredth: "to_float (1 / 100) = Finite (5764607523034235 / 576460752303423488)"
  by (rule to_float_eq[where e = "- 7"]) (simp_all add: eval_round)

lemma transact_time_1700:
  "transact_time \<lparr>random_unit = u, random_id = i, utc_timestamp = Finite 1700000000\<rparr>
     = Inr 1700000000000"
  by (simp add: transact_time_def to_float_1700)

lemma clock_1700:
  "clock_in_range \<lparr>random_unit = u, random_id = i, utc_timestamp = Finite 1700000000\<rparr>"
  by (simp add: clock_in_range_def)

section \<open>Facts about the two programs\<close>

lemma limit_main_rejects:
  assumes "parsed = Exit_usage msg
     \<or> (\<exists>args. parsed = Namespace args
          \<and> (isl (limit_validate_quantity (arg_quantity args))
             \<or> isl (validate_price (arg_price args))
             \<or> upper (strip (arg_side args)) \<notin> VALID_SIDES
             \<or> \<not> limit_validate_symbol (upper (strip (arg_symbol args)))))"
  shows "exit_status (limit_main env parsed) = 2
     \<and> \<not> list_ex prints_summary (events (limit_main env parsed))
     \<and> \<not> list_ex calls_simulator (events (limit_main env parsed))"
  using assms
  by (auto simp: limit_main_def parser_error_def Let_def isl_def split: sum.splits if_splits)

lemma market_main_rejects:
  assumes "parsed = Exit_usage msg
     \<or> (\<exists>args. parsed = Namespace args
          \<and> (isl (market_validate_quantity (arg_quantity args))
             \<or> upper (strip (arg_side args)) \<notin> VALID_SIDES
             \<or> \<not> market_validate_symbol (upper (strip (arg_symbol args)))))"
  shows "exit_status (market_main env parsed) = 2
     \<and> \<not> list_ex prints_summary (events (market_main env parsed))
     \<and> \<not> list_ex calls_simulator (events (market_main env parsed))"
  using assms
  by (auto simp: market_main_def parser_error_def Let_def isl_def split: sum.splits if_splits)

lemma limit_main_simulator_raises:
  assumes "limit_validate_quantity (arg_quantity args) = Inr quantity"
    and "validate_price (arg_price args) = Inr price'"
    and "upper (strip (arg_side args)) \<in> VALID_SIDES"
    and "limit_validate_symbol (upper (strip (arg_symbol args)))"
    and "simulate_place_limit_order env (upper (strip (arg_symbol args)))
           (upper (strip (arg_side args))) quantity price' = Inl e"
  shows "limit_main env (Namespace args) =
     \<lparr>events =
        [Log_info [S ''Placing limit order | '', S (upper (strip (arg_symbol args))), S '' | '',
                   S (upper (strip (arg_side args))), S '' | qty='', F quantity,
                   S '' | price='', F price'],
         Simulate_limit (upper (strip (arg_symbol args))) (upper (strip (arg_side args)))
           quantity price',
         Log_exception [S ''Failed to place limit order''] e],
      exit_status = 1\<rparr>"
  using assms by (simp add: limit_main_def limit_place_def Let_def)

lemma market_main_simulator_raises:
  assumes "market_validate_quantity (arg_quantity args) = Inr quantity"
    and "upper (strip (arg_side args)) \<in> VALID_SIDES"
    and "market_validate_symbol (upper (strip (arg_symbol args)))"
    and "simulate_place_market_order env (upper (strip (arg_symbol args)))
           (upper (strip (arg_side args))) quantity = Inl e"
  shows "market_main env (Namespace args) =
     \<lparr>events =
        [Log_info [S ''Placing market order | '', S (upper (strip (arg_symbol args))), S '' | '',
                   S (upper (strip (arg_side args))), S '' | qty='', F quantity],
         Simulate_market (upper (strip (arg_symbol args))) (upper (strip (arg_side args)))
           quantity,
         Log_exception [S ''Failed to place market order''] e],
      exit_status = 1\<rparr>"
  using assms by (simp add: market_main_def market_place_def Let_def)

lemma upper_strip_examples:
  "upper (strip '' hold '') = ''HOLD''" "upper (strip ''HOLD'') = ''HOLD''"
  "upper (strip ''buy'') = ''BUY''" "upper (strip ''BUY'') = ''BUY''"
  "upper (strip ''btcusdt'') = ''BTCUSDT''" "upper (strip ''BTCUSDT'') = ''BTCUSDT''"
  "upper (strip ''ethusd'') = ''ETHUSD''"
  by code_simp+

lemma symbol_examples:
  "limit_validate_symbol ''BTCUSDT''" "market_validate_symbol ''BTCUSDT''"
  "\<not> limit_validate_symbol ''ETHUSD''"
  by code_simp+

lemma py_float_examples:
  "py_float ''1'' = Inr (Finite 1)" "py_float ''2'' = Inr (Finite 2)"
  "py_float ''3000'' = Inr (Finite 3000)"
  by (simp_all add: parse_defs to_float_1 to_float_2 to_float_3000)

lemma validate_examples:
  "limit_validate_quantity ''1'' = Inr (Finite 1)"
  "market_validate_quantity ''1'' = Inr (Finite 1)"
  "validate_price ''2'' = Inr (Finite 2)"
  by (simp_all add: limit_validate_quantity_def market_validate_quantity_def validate_price_def
        py_float_examples)

lemma sides_examples: "''BUY'' \<in> VALID_SIDES" "''SELL'' \<in> VALID_SIDES"
  by (simp_all add: VALID_SIDES_def)

lemma unreadable_clock_raises:
  "simulate_place_limit_order \<lparr>random_unit = u, random_id = i, utc_timestamp = PosInf\<rparr>
     symbol' side' quantity price' =
     Inl (OverflowError [S ''cannot convert float infinity to integer''])"
  "simulate_place_market_order \<lparr>random_unit = u, random_id = i, utc_timestamp = PosInf\<rparr>
     symbol' side' quantity =
     Inl (OverflowError [S ''cannot convert float infinity to integer''])"
  by (simp_all add: simulate_place_limit_order_def simulate_place_market_order_def
        transact_time_def Let_def float_sign_def)

section \<open>The claims\<close>

text \<open>
  Claim C9.  The two scripts carry the same validators: \<^verbatim>\<open>validate_quantity\<close> of
  \<^verbatim>\<open>limit_orders.py\<close> and of \<^verbatim>\<open>market_orders.py\<close> give the same number or
  the same failure on every string, and the two \<^verbatim>\<open>validate_symbol\<close> give the same
  truth value on every string.
\<close>

theorem validators_agree:
  "limit_validate_quantity = market_validate_quantity
   \<and> limit_validate_symbol = market_validate_symbol"
  by (simp add: fun_eq_iff limit_validate_quantity_def market_validate_quantity_def
        limit_validate_symbol_def market_validate_symbol_def)

text \<open>
  Claim C10.  The strings \<^verbatim>\<open>inf\<close> and \<^verbatim>\<open>nan\<close> pass \<^verbatim>\<open>validate_quantity\<close> in
  both scripts: the first is returned as positive infinity, the second as NaN, and
  neither compares \<open>\<le> 0\<close>.
\<close>

theorem nonfinite_quantity_accepted:
  "limit_validate_quantity ''inf'' = Inr PosInf
   \<and> limit_validate_quantity ''nan'' = Inr NaN
   \<and> market_validate_quantity ''inf'' = Inr PosInf
   \<and> market_validate_quantity ''nan'' = Inr NaN
   \<and> py_float ''inf'' = Inr PosInf
   \<and> py_float ''nan'' = Inr NaN
   \<and> float_le PosInf (Finite 0) = False
   \<and> float_le NaN (Finite 0) = False"
  by (simp add: limit_validate_quantity_def market_validate_quantity_def parse_defs)

text \<open>
  Claim C4.  In both scripts \<^verbatim>\<open>validate_symbol\<close> is a total predicate, true exactly
  when every character of the symbol is alphanumeric and the symbol ends with
  \<^verbatim>\<open>USDT\<close>.
\<close>

theorem validate_symbol_iff:
  "(limit_validate_symbol s \<longleftrightarrow>
      (\<forall>c \<in> set s. isalnum_char c) \<and> (\<exists>p. s = p @ ''USDT''))
   \<and> (market_validate_symbol s \<longleftrightarrow>
      (\<forall>c \<in> set s. isalnum_char c) \<and> (\<exists>p. s = p @ ''USDT''))"
  unfolding limit_validate_symbol_def market_validate_symbol_def isalnum_def
    endswith_iff list_all_iff
  by auto

theorem validate_symbol_iff_witness:
  "limit_validate_symbol ''BTCUSDT''
   \<and> list_all isalnum_char ''BTCUSDT''
   \<and> (\<exists>p. ''BTCUSDT'' = p @ ''USDT'')
   \<and> \<not> market_validate_symbol ''ETHUSD''
   \<and> list_all isalnum_char ''ETHUSD''
   \<and> \<not> (\<exists>p. ''ETHUSD'' = p @ ''USDT'')"
proof -
  have 1: "limit_validate_symbol ''BTCUSDT''" by code_simp
  have 2: "\<not> market_validate_symbol ''ETHUSD''" by code_simp
  have 3: "list_all isalnum_char ''ETHUSD''" by code_simp
  from 1 2 3 validate_symbol_iff[of "''BTCUSDT''"] validate_symbol_iff[of "''ETHUSD''"]
  show ?thesis unfolding list_all_iff by blast
qed

text \<open>
  Claim C3.  For every string, \<^verbatim>\<open>validate_quantity\<close> raises
  \<^verbatim>\<open>ArgumentTypeError\<close> exactly when the string does not convert to a float or the
  converted value is \<open>\<le> 0\<close>; it raises nothing else; otherwise it returns the converted
  number.  The same holds for \<^verbatim>\<open>validate_price\<close> and for the quantity validator of
  the market script.
\<close>

theorem validate_quantity_contract:
  "((\<exists>m. limit_validate_quantity text = Inl (ArgumentTypeError m)) \<longleftrightarrow>
      (\<exists>e. py_float text = Inl e) \<or> (\<exists>q. py_float text = Inr q \<and> float_le q (Finite 0)))
   \<and> (\<forall>e. limit_validate_quantity text = Inl e \<longrightarrow> (\<exists>m. e = ArgumentTypeError m))
   \<and> (\<forall>q. py_float text = Inr q \<and> \<not> float_le q (Finite 0) \<longrightarrow>
         limit_validate_quantity text = Inr q)
   \<and> ((\<exists>m. validate_price text = Inl (ArgumentTypeError m)) \<longleftrightarrow>
      (\<exists>e. py_float text = Inl e) \<or> (\<exists>p. py_float text = Inr p \<and> float_le p (Finite 0)))
   \<and> (\<forall>e. validate_price text = Inl e \<longrightarrow> (\<exists>m. e = ArgumentTypeError m))
   \<and> (\<forall>p. py_float text = Inr p \<and> \<not> float_le p (Finite 0) \<longrightarrow>
         validate_price text = Inr p)
   \<and> ((\<exists>m. market_validate_quantity text = Inl (ArgumentTypeError m)) \<longleftrightarrow>
      (\<exists>e. py_float text = Inl e) \<or> (\<exists>q. py_float text = Inr q \<and> float_le q (Finite 0)))
   \<and> (\<forall>e. market_validate_quantity text = Inl e \<longrightarrow> (\<exists>m. e = ArgumentTypeError m))
   \<and> (\<forall>q. py_float text = Inr q \<and> \<not> float_le q (Finite 0) \<longrightarrow>
         market_validate_quantity text = Inr q)"
  by (auto simp: limit_validate_quantity_def validate_price_def market_validate_quantity_def
        split: sum.splits)

theorem validate_quantity_contract_witness:
  "limit_validate_quantity ''0.02'' = Inr (Finite (5764607523034235 / 288230376151711744))
   \<and> (\<exists>m. limit_validate_quantity ''0'' = Inl (ArgumentTypeError m))
   \<and> (\<exists>m. validate_price ''abc'' = Inl (ArgumentTypeError m))
   \<and> (\<exists>m. market_validate_quantity ''-5'' = Inl (ArgumentTypeError m))"
proof -
  have t: "to_float (1 / 50) = Finite (5764607523034235 / 288230376151711744)"
    by (rule to_float_eq[where e = "- 6"]) (simp_all add: eval_round)
  have f: "to_float 5 = Finite 5"
    by (rule to_float_eq[where e = 2]) (simp_all add: eval_round)
  have z: "to_float 0 = Finite 0"
    by (simp add: to_float_def round_binary64_def)
  have 1: "py_float ''0.02'' = Inr (Finite (5764607523034235 / 288230376151711744))"
    by (simp add: parse_defs t)
  have 2: "py_float ''0'' = Inr (Finite 0)"
    by (simp add: parse_defs z)
  have 3: "py_float ''abc'' = Inl (ValueError [S ''could not convert string to float: '', Repr ''abc''])"
    by (simp add: parse_defs)
  have 4: "py_float ''-5'' = Inr (Finite (- 5))"
    by (simp add: parse_defs f)
  show ?thesis
    using validate_quantity_contract[of "''0.02''"] validate_quantity_contract[of "''0''"]
      validate_quantity_contract[of "''abc''"] validate_quantity_contract[of "''-5''"]
    by (simp add: 1 2 3 4)
qed

text \<open>
  Claim C5.  Whatever the symbol, side, quantity and price (in particular for every valid
  request, with quantity and price above zero), and with a clock that shows a
  representable time, \<^verbatim>\<open>simulate_place_limit_order\<close> returns a record whose
  \<^verbatim>\<open>status\<close> is exactly \<^verbatim>\<open>NEW\<close> and whose \<^verbatim>\<open>origQty\<close> and \<^verbatim>\<open>price\<close> are the
  given quantity and price, unchanged.
\<close>

theorem limit_order_echoes_input:
  assumes "clock_in_range env"
  shows "\<exists>order. simulate_place_limit_order env symbol' side' quantity price' = Inr order
           \<and> status order = ''NEW'' \<and> origQty order = quantity \<and> price order = price'"
proof -
  from transact_time_total[OF assms] obtain t where "transact_time env = Inr t" ..
  then show ?thesis by (simp add: simulate_place_limit_order_def)
qed

theorem limit_order_echoes_input_witness:
  "clock_in_range \<lparr>random_unit = 0, random_id = 12345678, utc_timestamp = Finite 1700000000\<rparr>
   \<and> (\<exists>order.
        simulate_place_limit_order
          \<lparr>random_unit = 0, random_id = 12345678, utc_timestamp = Finite 1700000000\<rparr>
          ''BTCUSDT'' ''SELL'' (Finite (5764607523034235 / 288230376151711744)) (Finite 65000)
          = Inr order
        \<and> status order = ''NEW''
        \<and> origQty order = Finite (5764607523034235 / 288230376151711744)
        \<and> price order = Finite 65000)"
  using limit_order_echoes_input[OF clock_1700] clock_1700 by blast

text \<open>
  Claim C6.  Whatever the symbol, side and quantity (in particular for every valid
  request), and with a clock that shows a representable time,
  \<^verbatim>\<open>simulate_place_market_order\<close> returns a record whose \<^verbatim>\<open>status\<close> is exactly
  \<^verbatim>\<open>FILLED\<close> and whose \<^verbatim>\<open>executedQty\<close> is the given quantity, unchanged.
\<close>

theorem market_order_echoes_input:
  assumes "clock_in_range env"
  shows "\<exists>order. simulate_place_market_order env symbol' side' quantity = Inr order
           \<and> status order = ''FILLED'' \<and> executedQty order = quantity"
proof -
  from transact_time_total[OF assms] obtain t where "transact_time env = Inr t" ..
  then show ?thesis by (simp add: simulate_place_market_order_def)
qed

theorem market_order_echoes_input_witness:
  "clock_in_range \<lparr>random_unit = 0, random_id = 12345678, utc_timestamp = Finite 1700000000\<rparr>
   \<and> (\<exists>order.
        simulate_place_market_order
          \<lparr>random_unit = 0, random_id = 12345678, utc_timestamp = Finite 1700000000\<rparr>
          ''BTCUSDT'' ''BUY'' (Finite (5764607523034235 / 576460752303423488))
          = Inr order
        \<and> status order = ''FILLED''
        \<and> executedQty order = Finite (5764607523034235 / 576460752303423488))"
  using market_order_echoes_input[OF clock_1700] clock_1700 by blast

text \<open>
  Claim C7.  Every record that either simulator produces has an \<^verbatim>\<open>orderId\<close> that is
  an integer between 10000000 and 99999999, both included; and with a clock that shows
  a representable time both simulators do produce a record.
\<close>

theorem order_id_in_range:
  "(clock_in_range env \<longrightarrow>
      (\<exists>order. simulate_place_limit_order env symbol' side' quantity price' = Inr order
          \<and> 10000000 \<le> orderId order \<and> orderId order \<le> 99999999)
    \<and> (\<exists>order. simulate_place_market_order env symbol' side' quantity = Inr order
          \<and> 10000000 \<le> orderId order \<and> orderId order \<le> 99999999))
   \<and> (\<forall>order. simulate_place_limit_order env symbol' side' quantity price' = Inr order \<longrightarrow>
          10000000 \<le> orderId order \<and> orderId order \<le> 99999999)
   \<and> (\<forall>order. simulate_place_market_order env symbol' side' quantity = Inr order \<longrightarrow>
          10000000 \<le> orderId order \<and> orderId order \<le> 99999999)"
proof -
  have r: "10000000 \<le> randint 10000000 99999999 (random_id env)
      \<and> randint 10000000 99999999 (random_id env) \<le> 99999999"
    by (rule randint_range) simp
  have l: "\<forall>order. simulate_place_limit_order env symbol' side' quantity price' = Inr order \<longrightarrow>
          10000000 \<le> orderId order \<and> orderId order \<le> 99999999"
    using r by (auto simp: simulate_place_limit_order_def split: sum.splits)
  have m: "\<forall>order. simulate_place_market_order env symbol' side' quantity = Inr order \<longrightarrow>
          10000000 \<le> orderId order \<and> orderId order \<le> 99999999"
    using r by (auto simp: simulate_place_market_order_def Let_def split: sum.splits)
  have t: "clock_in_range env \<Longrightarrow>
      (\<exists>order. simulate_place_limit_order env symbol' side' quantity price' = Inr order)
    \<and> (\<exists>order. simulate_place_market_order env symbol' side' quantity = Inr order)"
  proof -
    assume "clock_in_range env"
    from transact_time_total[OF this] obtain t where "transact_time env = Inr t" ..
    then show ?thesis
      by (simp add: simulate_place_limit_order_def simulate_place_market_order_def)
  qed
  from l m t show ?thesis by blast
qed

theorem order_id_in_range_witness:
  "clock_in_range \<lparr>random_unit = 0, random_id = 12345678, utc_timestamp = Finite 1700000000\<rparr>
   \<and> (\<exists>order.
        simulate_place_limit_order
          \<lparr>random_unit = 0, random_id = 12345678, utc_timestamp = Finite 1700000000\<rparr>
          ''BTCUSDT'' ''SELL'' (Finite 1) (Finite 65000) = Inr order
        \<and> 10000000 \<le> orderId order \<and> orderId order \<le> 99999999)
   \<and> (\<exists>order.
        simulate_place_market_order
          \<lparr>random_unit = 0, random_id = 12345678, utc_timestamp = Finite 1700000000\<rparr>
          ''BTCUSDT'' ''SELL'' (Finite 1) = Inr order
        \<and> 10000000 \<le> orderId order \<and> orderId order \<le> 99999999)"
  using order_id_in_range[of
      "\<lparr>random_unit = 0, random_id = 12345678, utc_timestamp = Finite 1700000000\<rparr>"
      "''BTCUSDT''" "''SELL''" "Finite 1" "Finite 65000"] clock_1700
  by blast

text \<open>
  Claim C1.  As stated, the claim puts \<^verbatim>\<open>avgPrice\<close> in the half-open interval from
  1000.00 to 2000.00.  The price is \<^verbatim>\<open>round(1000 + random.random() * 1000, 2)\<close>, and
  rounding to two decimal places carries every sum from 1999.995 upwards to 2000.00.
  With the draw \<open>1 - 2\<^sup>-\<^sup>2\<^sup>0\<close> of \<^verbatim>\<open>random.random()\<close> the sum is 1999.99904... and the
  record carries \<^verbatim>\<open>avgPrice = 2000.0\<close>.
\<close>

theorem market_avg_price_counterexample:
  "simulate_place_market_order
     \<lparr>random_unit = 9007190664806400, random_id = 12345678, utc_timestamp = Finite 1700000000\<rparr>
     ''BTCUSDT'' ''BUY'' (Finite 1)
   = Inr \<lparr>orderId = 22345678, symbol = ''BTCUSDT'', side = ''BUY'', status = ''FILLED'',
          transactTime = 1700000000000, executedQty = Finite 1, avgPrice = Finite 2000\<rparr>"
proof -
  have a: "float_mul (random_random 9007190664806400) (Finite 1000) = Finite (131071875 / 131072)"
    unfolding random_random_def float_mul.simps
    by (rule to_float_eq[where e = 9]) (simp_all add: eval_round)
  have b: "to_float (262143875 / 131072) = Finite (262143875 / 131072)"
    by (rule to_float_eq[where e = 10]) (simp_all add: eval_round)
  have c: "round_half_even (6553596875 / 32768) = 200000"
    by (simp add: eval_round)
  show ?thesis
    by (simp add: simulate_place_market_order_def Let_def a b c to_float_2000
          transact_time_1700 randint_def)
qed

text \<open>
  Claim C1, amended.  With a clock that shows a representable time, the \<^verbatim>\<open>avgPrice\<close> of
  the record produced by \<^verbatim>\<open>simulate_place_market_order\<close> is a finite float in the closed
  interval from 1000.00 to 2000.00: it is the float nearest to \<open>k / 100\<close> for an integer
  \<open>k\<close> between 100000 and 200000, that is, a number of that interval with two decimal
  places.
\<close>

theorem market_avg_price_closed_range:
  assumes "clock_in_range env"
  shows "\<exists>order v k. simulate_place_market_order env symbol' side' quantity = Inr order
           \<and> avgPrice order = Finite v \<and> 1000 \<le> v \<and> v \<le> 2000
           \<and> v = round_binary64 (of_int k / 100) \<and> 100000 \<le> k \<and> k \<le> 200000"
proof -
  from transact_time_total[OF assms] obtain t where t: "transact_time env = Inr t" ..
  from exec_price_range[of "random_unit env"] obtain v k where
    "float_round (float_add (Finite 1000) (float_mul (random_random (random_unit env)) (Finite 1000))) 2
       = Finite v"
    "1000 \<le> v" "v \<le> 2000" "v = round_binary64 (of_int k / 100)" "100000 \<le> k" "k \<le> 200000"
    by blast
  then show ?thesis using t
    by (simp add: simulate_place_market_order_def Let_def) blast
qed

theorem market_avg_price_closed_range_witness:
  "clock_in_range
     \<lparr>random_unit = 9007190664806400, random_id = 12345678, utc_timestamp = Finite 1700000000\<rparr>
   \<and> (\<exists>order v k.
        simulate_place_market_order
          \<lparr>random_unit = 9007190664806400, random_id = 12345678,
           utc_timestamp = Finite 1700000000\<rparr>
          ''BTCUSDT'' ''BUY'' (Finite 1) = Inr order
        \<and> avgPrice order = Finite v \<and> 1000 \<le> v \<and> v \<le> 2000
        \<and> v = round_binary64 (of_int k / 100) \<and> 100000 \<le> k \<and> k \<le> 200000)"
  using market_avg_price_closed_range[OF clock_1700] clock_1700 by blast

text \<open>
  Claim C2.  When the argument list is malformed, or a validator rejects the quantity,
  the limit price, the side or the symbol, either program exits with status 2 (so not
  with 0), its run holds no printed order summary and no call of the order simulator.
  A side whose stripped, uppercased form is neither \<^verbatim>\<open>BUY\<close> nor \<^verbatim>\<open>SELL\<close> is one of these
  cases.
\<close>

theorem validation_failure_exits:
  "(((\<exists>msg. lparsed = Exit_usage msg)
      \<or> (\<exists>args. lparsed = Namespace args
           \<and> (isl (limit_validate_quantity (arg_quantity args))
              \<or> isl (validate_price (arg_price args))
              \<or> upper (strip (arg_side args)) \<notin> {''BUY'', ''SELL''}
              \<or> \<not> limit_validate_symbol (upper (strip (arg_symbol args)))))) \<longrightarrow>
     exit_status (limit_main env lparsed) = 2
     \<and> \<not> list_ex prints_summary (events (limit_main env lparsed))
     \<and> \<not> list_ex calls_simulator (events (limit_main env lparsed)))
   \<and> (((\<exists>msg. mparsed = Exit_usage msg)
      \<or> (\<exists>args. mparsed = Namespace args
           \<and> (isl (market_validate_quantity (arg_quantity args))
              \<or> upper (strip (arg_side args)) \<notin> {''BUY'', ''SELL''}
              \<or> \<not> market_validate_symbol (upper (strip (arg_symbol args)))))) \<longrightarrow>
     exit_status (market_main env mparsed) = 2
     \<and> \<not> list_ex prints_summary (events (market_main env mparsed))
     \<and> \<not> list_ex calls_simulator (events (market_main env mparsed)))"
proof (intro conjI impI)
  assume a: "(\<exists>msg. lparsed = Exit_usage msg)
      \<or> (\<exists>args. lparsed = Namespace args
           \<and> (isl (limit_validate_quantity (arg_quantity args))
              \<or> isl (validate_price (arg_price args))
              \<or> upper (strip (arg_side args)) \<notin> {''BUY'', ''SELL''}
              \<or> \<not> limit_validate_symbol (upper (strip (arg_symbol args)))))"
  then have "\<exists>msg. lparsed = Exit_usage msg
     \<or> (\<exists>args. lparsed = Namespace args
          \<and> (isl (limit_validate_quantity (arg_quantity args))
             \<or> isl (validate_price (arg_price args))
             \<or> upper (strip (arg_side args)) \<notin> VALID_SIDES
             \<or> \<not> limit_validate_symbol (upper (strip (arg_symbol args)))))"
    unfolding VALID_SIDES_def by blast
  then obtain msg where "lparsed = Exit_usage msg
     \<or> (\<exists>args. lparsed = Namespace args
          \<and> (isl (limit_validate_quantity (arg_quantity args))
             \<or> isl (validate_price (arg_price args))
             \<or> upper (strip (arg_side args)) \<notin> VALID_SIDES
             \<or> \<not> limit_validate_symbol (upper (strip (arg_symbol args)))))" ..
  note r = limit_main_rejects[OF this, of env]
  from r show "exit_status (limit_main env lparsed) = 2" by simp
  from r show "\<not> list_ex prints_summary (events (limit_main env lparsed))" by simp
  from r show "\<not> list_ex calls_simulator (events (limit_main env lparsed))" by simp
next
  assume a: "(\<exists>msg. mparsed = Exit_usage msg)
      \<or> (\<exists>args. mparsed = Namespace args
           \<and> (isl (market_validate_quantity (arg_quantity args))
              \<or> upper (strip (arg_side args)) \<notin> {''BUY'', ''SELL''}
              \<or> \<not> market_validate_symbol (upper (strip (arg_symbol args)))))"
  then have "\<exists>msg. mparsed = Exit_usage msg
     \<or> (\<exists>args. mparsed = Namespace args
          \<and> (isl (market_validate_quantity (arg_quantity args))
             \<or> upper (strip (arg_side args)) \<notin> VALID_SIDES
             \<or> \<not> market_validate_symbol (upper (strip (arg_symbol args)))))"
    unfolding VALID_SIDES_def by blast
  then obtain msg where "mparsed = Exit_usage msg
     \<or> (\<exists>args. mparsed = Namespace args
          \<and> (isl (market_validate_quantity (arg_quantity args))
             \<or> upper (strip (arg_side args)) \<notin> VALID_SIDES
             \<or> \<not> market_validate_symbol (upper (strip (arg_symbol args)))))" ..
  note r = market_main_rejects[OF this, of env]
  from r show "exit_status (market_main env mparsed) = 2" by simp
  from r show "\<not> list_ex prints_summary (events (market_main env mparsed))" by simp
  from r show "\<not> list_ex calls_simulator (events (market_main env mparsed))" by simp
qed

theorem validation_failure_exits_witness:
  "upper (strip '' hold '') \<notin> {''BUY'', ''SELL''}
   \<and> exit_status
        (limit_main \<lparr>random_unit = 0, random_id = 12345678, utc_timestamp = Finite 1700000000\<rparr>
          (Namespace \<lparr>arg_symbol = ''btcusdt'', arg_side = '' hold '', arg_quantity = ''1'',
                      arg_price = ''2''\<rparr>)) = 2
   \<and> \<not> list_ex prints_summary (events
        (limit_main \<lparr>random_unit = 0, random_id = 12345678, utc_timestamp = Finite 1700000000\<rparr>
          (Namespace \<lparr>arg_symbol = ''btcusdt'', arg_side = '' hold '', arg_quantity = ''1'',
                      arg_price = ''2''\<rparr>)))
   \<and> \<not> list_ex calls_simulator (events
        (limit_main \<lparr>random_unit = 0, random_id = 12345678, utc_timestamp = Finite 1700000000\<rparr>
          (Namespace \<lparr>arg_symbol = ''btcusdt'', arg_side = '' hold '', arg_quantity = ''1'',
                      arg_price = ''2''\<rparr>)))
   \<and> \<not> market_validate_symbol (upper (strip ''ethusd''))
   \<and> exit_status
        (market_main \<lparr>random_unit = 0, random_id = 12345678, utc_timestamp = Finite 1700000000\<rparr>
          (Namespace \<lparr>arg_symbol = ''ethusd'', arg_side = ''buy'', arg_quantity = ''1''\<rparr>)) = 2
   \<and> \<not> list_ex prints_summary (events
        (market_main \<lparr>random_unit = 0, random_id = 12345678, utc_timestamp = Finite 1700000000\<rparr>
          (Namespace \<lparr>arg_symbol = ''ethusd'', arg_side = ''buy'', arg_quantity = ''1''\<rparr>)))
   \<and> \<not> list_ex calls_simulator (events
        (market_main \<lparr>random_unit = 0, random_id = 12345678, utc_timestamp = Finite 1700000000\<rparr>
          (Namespace \<lparr>arg_symbol = ''ethusd'', arg_side = ''buy'', arg_quantity = ''1''\<rparr>)))"
proof -
  have s: "upper (strip '' hold '') \<notin> {''BUY'', ''SELL''}" by code_simp
  have y: "\<not> market_validate_symbol (upper (strip ''ethusd''))" by code_simp
  show ?thesis
    using validation_failure_exits[where
        env = "\<lparr>random_unit = 0, random_id = 12345678, utc_timestamp = Finite 1700000000\<rparr>"
        and lparsed = "Namespace \<lparr>arg_symbol = ''btcusdt'', arg_side = '' hold '',
                        arg_quantity = ''1'', arg_price = ''2''\<rparr>"
        and mparsed = "Namespace \<lparr>arg_symbol = ''ethusd'', arg_side = ''buy'',
                        arg_quantity = ''1''\<rparr>"] s y
    by simp
qed

text \<open>
  Claim C8.  With a clock that shows a representable time both simulators return a
  record, whatever the symbol, side, quantity and price.  And when the simulator does
  raise, after every validator has accepted its argument, the run of either program is:
  the announcement of the order, the call of the simulator, the exception logged with
  \<^verbatim>\<open>logging.exception\<close>, and exit status 1; no order summary is printed.
\<close>

theorem construction_failure_handled:
  "(clock_in_range env \<longrightarrow>
      (\<exists>order. simulate_place_limit_order env symbol' side' quantity price' = Inr order)
    \<and> (\<exists>order. simulate_place_market_order env symbol' side' quantity = Inr order))
   \<and> (\<forall>q p e.
        limit_validate_quantity (arg_quantity largs) = Inr q
        \<and> validate_price (arg_price largs) = Inr p
        \<and> upper (strip (arg_side largs)) \<in> VALID_SIDES
        \<and> limit_validate_symbol (upper (strip (arg_symbol largs)))
        \<and> simulate_place_limit_order env (upper (strip (arg_symbol largs)))
             (upper (strip (arg_side largs))) q p = Inl e \<longrightarrow>
        limit_main env (Namespace largs) =
          \<lparr>events =
             [Log_info [S ''Placing limit order | '', S (upper (strip (arg_symbol largs))),
                        S '' | '', S (upper (strip (arg_side largs))), S '' | qty='', F q,
                        S '' | price='', F p],
              Simulate_limit (upper (strip (arg_symbol largs)))
                (upper (strip (arg_side largs))) q p,
              Log_exception [S ''Failed to place limit order''] e],
           exit_status = 1\<rparr>)
   \<and> (\<forall>q e.
        market_validate_quantity (arg_quantity margs) = Inr q
        \<and> upper (strip (arg_side margs)) \<in> VALID_SIDES
        \<and> market_validate_symbol (upper (strip (arg_symbol margs)))
        \<and> simulate_place_market_order env (upper (strip (arg_symbol margs)))
             (upper (strip (arg_side margs))) q = Inl e \<longrightarrow>
        market_main env (Namespace margs) =
          \<lparr>events =
             [Log_info [S ''Placing market order | '', S (upper (strip (arg_symbol margs))),
                        S '' | '', S (upper (strip (arg_side margs))), S '' | qty='', F q],
              Simulate_market (upper (strip (arg_symbol margs)))
                (upper (strip (arg_side margs))) q,
              Log_exception [S ''Failed to place market order''] e],
           exit_status = 1\<rparr>)"
proof (intro conjI impI allI)
  assume "clock_in_range env"
  from transact_time_total[OF this] obtain t where t: "transact_time env = Inr t" ..
  from t show "\<exists>order. simulate_place_limit_order env symbol' side' quantity price' = Inr order"
    by (simp add: simulate_place_limit_order_def)
  from t show "\<exists>order. simulate_place_market_order env symbol' side' quantity = Inr order"
    by (simp add: simulate_place_market_order_def)
next
  fix q p e
  assume "limit_validate_quantity (arg_quantity largs) = Inr q
        \<and> validate_price (arg_price largs) = Inr p
        \<and> upper (strip (arg_side largs)) \<in> VALID_SIDES
        \<and> limit_validate_symbol (upper (strip (arg_symbol largs)))
        \<and> simulate_place_limit_order env (upper (strip (arg_symbol largs)))
             (upper (strip (arg_side largs))) q p = Inl e"
  then show "limit_main env (Namespace largs) =
          \<lparr>events =
             [Log_info [S ''Placing limit order | '', S (upper (strip (arg_symbol largs))),
                        S '' | '', S (upper (strip (arg_side largs))), S '' | qty='', F q,
                        S '' | price='', F p],
              Simulate_limit (upper (strip (arg_symbol largs)))
                (upper (strip (arg_side largs))) q p,
              Log_exception [S ''Failed to place limit order''] e],
           exit_status = 1\<rparr>"
    by (simp add: limit_main_simulator_raises)
next
  fix q e
  assume "market_validate_quantity (arg_quantity margs) = Inr q
        \<and> upper (strip (arg_side margs)) \<in> VALID_SIDES
        \<and> market_validate_symbol (upper (strip (arg_symbol margs)))
        \<and> simulate_place_market_order env (upper (strip (arg_symbol margs)))
             (upper (strip (arg_side margs))) q = Inl e"
  then show "market_main env (Namespace margs) =
          \<lparr>events =
             [Log_info [S ''Placing market order | '', S (upper (strip (arg_symbol margs))),
                        S '' | '', S (upper (strip (arg_side margs))), S '' | qty='', F q],
              Simulate_market (upper (strip (arg_symbol margs)))
                (upper (strip (arg_side margs))) q,
              Log_exception [S ''Failed to place market order''] e],
           exit_status = 1\<rparr>"
    by (simp add: market_main_simulator_raises)
qed

theorem construction_failure_handled_witness:
  "clock_in_range \<lparr>random_unit = 0, random_id = 12345678, utc_timestamp = Finite 1700000000\<rparr>
   \<and> (\<exists>order.
        simulate_place_limit_order
          \<lparr>random_unit = 0, random_id = 12345678, utc_timestamp = Finite 1700000000\<rparr>
          ''BTCUSDT'' ''BUY'' (Finite 1) (Finite 2) = Inr order)
   \<and> (\<exists>order.
        simulate_place_market_order
          \<lparr>random_unit = 0, random_id = 12345678, utc_timestamp = Finite 1700000000\<rparr>
          ''BTCUSDT'' ''BUY'' (Finite 1) = Inr order)
   \<and> limit_validate_quantity ''1'' = Inr (Finite 1)
   \<and> validate_price ''2'' = Inr (Finite 2)
   \<and> upper (strip ''buy'') \<in> VALID_SIDES
   \<and> limit_validate_symbol (upper (strip ''btcusdt''))
   \<and> simulate_place_limit_order
        \<lparr>random_unit = 0, random_id = 12345678, utc_timestamp = PosInf\<rparr>
        ''BTCUSDT'' ''BUY'' (Finite 1) (Finite 2) =
        Inl (OverflowError [S ''cannot convert float infinity to integer''])
   \<and> limit_main \<lparr>random_unit = 0, random_id = 12345678, utc_timestamp = PosInf\<rparr>
        (Namespace \<lparr>arg_symbol = ''btcusdt'', arg_side = ''buy'', arg_quantity = ''1'',
                    arg_price = ''2''\<rparr>) =
        \<lparr>events =
           [Log_info [S ''Placing limit order | '', S ''BTCUSDT'', S '' | '', S ''BUY'',
                      S '' | qty='', F (Finite 1), S '' | price='', F (Finite 2)],
            Simulate_limit ''BTCUSDT'' ''BUY'' (Finite 1) (Finite 2),
            Log_exception [S ''Failed to place limit order'']
              (OverflowError [S ''cannot convert float infinity to integer''])],
         exit_status = 1\<rparr>
   \<and> market_main \<lparr>random_unit = 0, random_id = 12345678, utc_timestamp = PosInf\<rparr>
        (Namespace \<lparr>arg_symbol = ''btcusdt'', arg_side = ''buy'', arg_quantity = ''1''\<rparr>) =
        \<lparr>events =
           [Log_info [S ''Placing market order | '', S ''BTCUSDT'', S '' | '', S ''BUY'',
                      S '' | qty='', F (Finite 1)],
            Simulate_market ''BTCUSDT'' ''BUY'' (Finite 1),
            Log_exception [S ''Failed to place market order'']
              (OverflowError [S ''cannot convert float infinity to integer''])],
         exit_status = 1\<rparr>"
proof -
  note ok = construction_failure_handled[where
      env = "\<lparr>random_unit = 0, random_id = 12345678, utc_timestamp = Finite 1700000000\<rparr>"
      and symbol' = "''BTCUSDT''" and side' = "''BUY''" and quantity = "Finite 1"
      and price' = "Finite 2"]
  note raised = construction_failure_handled[where
      env = "\<lparr>random_unit = 0, random_id = 12345678, utc_timestamp = PosInf\<rparr>"
      and largs = "\<lparr>arg_symbol = ''btcusdt'', arg_side = ''buy'', arg_quantity = ''1'',
                     arg_price = ''2''\<rparr>"
      and margs = "\<lparr>arg_symbol = ''btcusdt'', arg_side = ''buy'', arg_quantity = ''1''\<rparr>"]
  from ok clock_1700 have
    a: "(\<exists>order.
        simulate_place_limit_order
          \<lparr>random_unit = 0, random_id = 12345678, utc_timestamp = Finite 1700000000\<rparr>
          ''BTCUSDT'' ''BUY'' (Finite 1) (Finite 2) = Inr order)
     \<and> (\<exists>order.
        simulate_place_market_order
          \<lparr>random_unit = 0, random_id = 12345678, utc_timestamp = Finite 1700000000\<rparr>
          ''BTCUSDT'' ''BUY'' (Finite 1) = Inr order)"
    by blast
  from raised have
    b: "limit_main \<lparr>random_unit = 0, random_id = 12345678, utc_timestamp = PosInf\<rparr>
        (Namespace \<lparr>arg_symbol = ''btcusdt'', arg_side = ''buy'', arg_quantity = ''1'',
                    arg_price = ''2''\<rparr>) =
        \<lparr>events =
           [Log_info [S ''Placing limit order | '', S ''BTCUSDT'', S '' | '', S ''BUY'',
                      S '' | qty='', F (Finite 1), S '' | price='', F (Finite 2)],
            Simulate_limit ''BTCUSDT'' ''BUY'' (Finite 1) (Finite 2),
            Log_exception [S ''Failed to place limit order'']
              (OverflowError [S ''cannot convert float infinity to integer''])],
         exit_status = 1\<rparr>"
    by (simp add: upper_strip_examples symbol_examples sides_examples validate_examples
          unreadable_clock_raises)
  from raised have
    c: "market_main \<lparr>random_unit = 0, random_id = 12345678, utc_timestamp = PosInf\<rparr>
        (Namespace \<lparr>arg_symbol = ''btcusdt'', arg_side = ''buy'', arg_quantity = ''1''\<rparr>) =
        \<lparr>events =
           [Log_info [S ''Placing market order | '', S ''BTCUSDT'', S '' | '', S ''BUY'',
                      S '' | qty='', F (Finite 1)],
            Simulate_market ''BTCUSDT'' ''BUY'' (Finite 1),
            Log_exception [S ''Failed to place market order'']
              (OverflowError [S ''cannot convert float infinity to integer''])],
         exit_status = 1\<rparr>"
    by (simp add: upper_strip_examples symbol_examples sides_examples validate_examples
          unreadable_clock_raises)
  from a b c show ?thesis
    by (simp add: clock_1700 upper_strip_examples symbol_examples sides_examples
          validate_examples unreadable_clock_raises)
qed

end
